theory Spec2Isabelle
  imports Complex_Main "HOL-Library.AList"
begin

section \<open>Resource Records: values, field declarations, configuration\<close>

text \<open>
  The records of \<^verbatim>\<open>sdk/python/goatflow_sdk/models.py\<close> are classes of a generic
  validation library: each class is a list of field declarations (name, annotated type,
  default, constraint) under the configuration of \<^verbatim>\<open>BaseGoatflowModel\<close>. The classes and
  the configuration are translated from the source; what the library does with them
  (required fields, conversion of values, rejection of undeclared fields, validated
  assignment) is written out below as functions over these declarations.

  A Python value is a \<open>pyval\<close>. A \<^verbatim>\<open>str\<close> is a list of characters, so that \<open>length\<close> is
  Python's \<^verbatim>\<open>len\<close>; a \<^verbatim>\<open>datetime\<close> is an instant; a \<^verbatim>\<open>dict\<close> with string keys and the
  fields of a record instance are association lists. Values of other Python types (floats,
  bytes, tuples) are outside the model.
\<close>

datatype pyval =
    PNone
  | PBool bool
  | PInt int
  | PStr string
  | PDatetime int
  | PList "pyval list"
  | PDict "(string \<times> pyval) list"
  | PModel string "(string \<times> pyval) list"

type_synonym payload = "(string \<times> pyval) list"

text \<open>
  An annotation of the source: \<^verbatim>\<open>int\<close>, \<^verbatim>\<open>str\<close>, \<^verbatim>\<open>bool\<close>, \<^verbatim>\<open>datetime\<close>, \<^verbatim>\<open>Any\<close>,
  \<^verbatim>\<open>Optional[t]\<close>, \<^verbatim>\<open>List[t]\<close>, \<^verbatim>\<open>Dict[str, t]\<close>, or another record class. A field
  declaration \<^verbatim>\<open>name: t = default\<close> is \<open>Field name t (Some default) None\<close>; without a
  default the field is required; \<^verbatim>\<open>Field(min_length=n)\<close> is the last component.
\<close>

datatype ftype =
    TInt
  | TStr
  | TBool
  | TDatetime
  | TAny
  | TOptional ftype
  | TList ftype
  | TDict ftype
  | TModel string "field list"
and field =
    Field (fname: string) (ftyp: ftype) (fdefault: "pyval option") (fmin_length: "nat option")

datatype extra_policy = ExtraIgnore | ExtraAllow | ExtraForbid

record model_config =
  use_enum_values :: bool
  validate_assignment :: bool
  extra :: extra_policy
  populate_by_name :: bool
  frozen :: bool

text \<open>
  \<^verbatim>\<open>model_config = ConfigDict(use_enum_values=True, validate_assignment=True,
  extra="forbid", populate_by_name=True)\<close>. The source does not set \<^verbatim>\<open>frozen\<close>, which
  therefore has the library's default, \<open>False\<close>.
\<close>

definition BaseGoatflowModel :: model_config where
  "BaseGoatflowModel =
     \<lparr>use_enum_values = True, validate_assignment = True, extra = ExtraForbid,
      populate_by_name = True, frozen = False\<rparr>"

datatype err_kind =
    Missing
  | ExtraForbidden
  | IntType
  | StringType
  | BoolType
  | DatetimeType
  | ListType
  | DictType
  | ModelType
  | StringTooShort
  | FrozenInstance
  | NoSuchAttribute

type_synonym err_detail = "string list \<times> err_kind"

text \<open>
  The exceptions: the kinds that \<^verbatim>\<open>__init__.py\<close> exports, \<^verbatim>\<open>ValidationError\<close> with the list of
  what was wrong, and Python's \<^verbatim>\<open>ValueError\<close>. Constructing a record raises the validation
  library's \<^verbatim>\<open>ValidationError\<close>; the model does not tell it from the exception of the same
  name that \<^verbatim>\<open>__init__.py\<close> imports from \<^verbatim>\<open>exceptions.py\<close>, which is not among the sources.
\<close>

datatype error =
    ValidationError "err_detail list"
  | NetworkError
  | TimeoutError
  | NotFoundError
  | UnauthorizedError
  | ForbiddenError
  | RateLimitError "int option"
  | GoatflowError int string
  | ValueError string

text \<open>
  The library is not in strict mode: a value of another type may be converted to the
  annotated scalar type (the string \<^verbatim>\<open>"5"\<close> for an \<^verbatim>\<open>int\<close> field). Which values it converts
  is a parameter of the model, so that every theorem holds whatever the library converts;
  a value that already has the annotated type is taken as it is.
\<close>

record coercions =
  to_int :: "pyval \<Rightarrow> int option"
  to_str :: "pyval \<Rightarrow> string option"
  to_bool :: "pyval \<Rightarrow> bool option"
  to_datetime :: "pyval \<Rightarrow> int option"

definition no_coercion :: coercions where
  "no_coercion =
     \<lparr>to_int = (\<lambda>v. None), to_str = (\<lambda>v. None), to_bool = (\<lambda>v. None),
      to_datetime = (\<lambda>v. None)\<rparr>"

section \<open>Construction of a record from a payload\<close>

definition at_loc :: "string \<Rightarrow> err_detail list \<Rightarrow> err_detail list" where
  "at_loc n es = map (\<lambda>(loc, k). (n # loc, k)) es"

definition check_constraints :: "nat option \<Rightarrow> pyval \<Rightarrow> err_detail list" where
  "check_constraints m w =
     (case m of
        None \<Rightarrow> []
      | Some n \<Rightarrow>
          (case w of
             PStr s \<Rightarrow> if length s < n then [([], StringTooShort)] else []
           | _ \<Rightarrow> []))"

definition extra_fields :: "field list \<Rightarrow> payload \<Rightarrow> payload" where
  "extra_fields fs p = filter (\<lambda>(k, v). k \<notin> set (map fname fs)) p"

text \<open>
  The end of a class's validation: with \<^verbatim>\<open>extra="forbid"\<close> every undeclared key of the
  payload is an error; all errors are collected, and the fields are returned only when
  there is none.
\<close>

definition finish ::
  "model_config \<Rightarrow> field list \<Rightarrow> payload \<Rightarrow> err_detail list \<times> payload
     \<Rightarrow> err_detail list + payload" where
  "finish cfg fs p res =
     (case res of (es, r) \<Rightarrow>
       (case extra cfg of
          ExtraForbid \<Rightarrow>
            (let errs = es @ map (\<lambda>(k, v). ([k], ExtraForbidden)) (extra_fields fs p)
             in if errs = [] then Inr r else Inl errs)
        | ExtraIgnore \<Rightarrow> if es = [] then Inr r else Inl es
        | ExtraAllow \<Rightarrow> if es = [] then Inr (r @ extra_fields fs p) else Inl es))"

text \<open>
  \<open>validate\<close> checks one value against an annotation, \<open>validate_field\<close> adds the
  field's constraint, and \<open>validate_fields\<close> walks the declarations of a class in order:
  a declared field takes the payload's value, validated, or else its default (defaults are
  not validated); a required field without a value is the error \<open>Missing\<close>. All errors
  are collected rather than stopping at the first.
\<close>

fun validate_list ::
  "(pyval \<Rightarrow> err_detail list + pyval) \<Rightarrow> pyval list \<Rightarrow> err_detail list + pyval list" where
  "validate_list vt [] = Inr []"
| "validate_list vt (v # vs) =
     (case vt v of
        Inl e \<Rightarrow> (case validate_list vt vs of Inl es \<Rightarrow> Inl (e @ es) | Inr ws \<Rightarrow> Inl e)
      | Inr w \<Rightarrow> (case validate_list vt vs of Inl es \<Rightarrow> Inl es | Inr ws \<Rightarrow> Inr (w # ws)))"

fun validate_dict ::
  "(pyval \<Rightarrow> err_detail list + pyval) \<Rightarrow> payload \<Rightarrow> err_detail list + payload" where
  "validate_dict vt [] = Inr []"
| "validate_dict vt ((k, v) # kvs) =
     (case vt v of
        Inl e \<Rightarrow>
          (case validate_dict vt kvs of
             Inl es \<Rightarrow> Inl (at_loc k e @ es)
           | Inr ws \<Rightarrow> Inl (at_loc k e))
      | Inr w \<Rightarrow>
          (case validate_dict vt kvs of Inl es \<Rightarrow> Inl es | Inr ws \<Rightarrow> Inr ((k, w) # ws)))"

primrec validate ::
    "coercions \<Rightarrow> model_config \<Rightarrow> ftype \<Rightarrow> pyval \<Rightarrow> err_detail list + pyval"
and validate_field ::
    "coercions \<Rightarrow> model_config \<Rightarrow> field \<Rightarrow> pyval \<Rightarrow> err_detail list + pyval"
and validate_fields ::
    "coercions \<Rightarrow> model_config \<Rightarrow> field list \<Rightarrow> payload \<Rightarrow> err_detail list \<times> payload"
where
  "validate c cfg TInt v =
     (case v of
        PInt i \<Rightarrow> Inr (PInt i)
      | _ \<Rightarrow> (case to_int c v of Some i \<Rightarrow> Inr (PInt i) | None \<Rightarrow> Inl [([], IntType)]))"
| "validate c cfg TStr v =
     (case v of
        PStr s \<Rightarrow> Inr (PStr s)
      | _ \<Rightarrow> (case to_str c v of Some s \<Rightarrow> Inr (PStr s) | None \<Rightarrow> Inl [([], StringType)]))"
| "validate c cfg TBool v =
     (case v of
        PBool b \<Rightarrow> Inr (PBool b)
      | _ \<Rightarrow> (case to_bool c v of Some b \<Rightarrow> Inr (PBool b) | None \<Rightarrow> Inl [([], BoolType)]))"
| "validate c cfg TDatetime v =
     (case v of
        PDatetime t \<Rightarrow> Inr (PDatetime t)
      | _ \<Rightarrow> (case to_datetime c v of
                Some t \<Rightarrow> Inr (PDatetime t)
              | None \<Rightarrow> Inl [([], DatetimeType)]))"
| "validate c cfg TAny v = Inr v"
| "validate c cfg (TOptional t) v =
     (case v of PNone \<Rightarrow> Inr PNone | _ \<Rightarrow> validate c cfg t v)"
| "validate c cfg (TList t) v =
     (case v of
        PList vs \<Rightarrow>
          (case validate_list (validate c cfg t) vs of
             Inl es \<Rightarrow> Inl es
           | Inr ws \<Rightarrow> Inr (PList ws))
      | _ \<Rightarrow> Inl [([], ListType)])"
| "validate c cfg (TDict t) v =
     (case v of
        PDict kvs \<Rightarrow>
          (case validate_dict (validate c cfg t) kvs of
             Inl es \<Rightarrow> Inl es
           | Inr ws \<Rightarrow> Inr (PDict ws))
      | _ \<Rightarrow> Inl [([], DictType)])"
| "validate c cfg (TModel n fs) v =
     (case v of
        PDict p \<Rightarrow>
          (case finish cfg fs p (validate_fields c cfg fs p) of
             Inl es \<Rightarrow> Inl es
           | Inr r \<Rightarrow> Inr (PModel n r))
      | PModel n' r \<Rightarrow> if n' = n then Inr (PModel n' r) else Inl [([], ModelType)]
      | _ \<Rightarrow> Inl [([], ModelType)])"
| "validate_field c cfg (Field n t d m) v =
     (case validate c cfg t v of
        Inl e \<Rightarrow> Inl e
      | Inr w \<Rightarrow> (case check_constraints m w of [] \<Rightarrow> Inr w | ce # ces \<Rightarrow> Inl (ce # ces)))"
| "validate_fields c cfg [] p = ([], [])"
| "validate_fields c cfg (f # fs) p =
     (case validate_fields c cfg fs p of (es, r) \<Rightarrow>
       (case map_of p (fname f) of
          None \<Rightarrow>
            (case fdefault f of
               None \<Rightarrow> (([fname f], Missing) # es, r)
             | Some dv \<Rightarrow> (es, (fname f, dv) # r))
        | Some v \<Rightarrow>
            (case validate_field c cfg f v of
               Inl e \<Rightarrow> (at_loc (fname f) e @ es, r)
             | Inr w \<Rightarrow> (es, (fname f, w) # r))))"

text \<open>
  \<^verbatim>\<open>Cls(**payload)\<close>: the record's fields, or the library's \<^verbatim>\<open>ValidationError\<close> with the
  list of what was wrong.
\<close>

definition construct ::
  "coercions \<Rightarrow> model_config \<Rightarrow> field list \<Rightarrow> payload \<Rightarrow> error + payload" where
  "construct c cfg fs p =
     (case finish cfg fs p (validate_fields c cfg fs p) of
        Inl es \<Rightarrow> Inl (ValidationError es)
      | Inr r \<Rightarrow> Inr r)"

section \<open>Assignment to a field and encoding\<close>

text \<open>
  \<^verbatim>\<open>record.name = value\<close> on a constructed record. A frozen class refuses every
  assignment. With \<^verbatim>\<open>validate_assignment=True\<close> the value is validated as at construction
  and the field is replaced by the validated value; a name that is not declared is
  refused unless extra fields are allowed. \<open>Inl\<close> is the exception raised, and the record
  is then as it was. Names that begin with an underscore are private attributes, not
  fields, and are not modelled.
\<close>

definition setattr ::
  "coercions \<Rightarrow> model_config \<Rightarrow> field list \<Rightarrow> payload \<Rightarrow> string \<Rightarrow> pyval \<Rightarrow> error + payload" where
  "setattr c cfg fs r n v =
     (if frozen cfg then Inl (ValidationError [([n], FrozenInstance)])
      else
        (case find (\<lambda>f. fname f = n) fs of
           None \<Rightarrow>
             if extra cfg = ExtraAllow then Inr (AList.update n v r)
             else if validate_assignment cfg then Inl (ValidationError [([n], NoSuchAttribute)])
             else Inl (ValueError n)
         | Some f \<Rightarrow>
             if validate_assignment cfg then
               (case validate_field c cfg f v of
                  Inl es \<Rightarrow> Inl (ValidationError (at_loc n es))
                | Inr w \<Rightarrow> Inr (AList.update n w r))
             else Inr (AList.update n v r)))"

text \<open>\<^verbatim>\<open>record.model_dump(exclude_none=...)\<close>: the fields of the record as a dictionary.\<close>

definition model_dump :: "bool \<Rightarrow> payload \<Rightarrow> payload" where
  "model_dump exclude_none r = (if exclude_none then filter (\<lambda>(k, v). v \<noteq> PNone) r else r)"

section \<open>The record classes of models.py\<close>

definition required :: "string \<Rightarrow> ftype \<Rightarrow> field" where
  "required n t = Field n t None None"

definition optional :: "string \<Rightarrow> ftype \<Rightarrow> pyval \<Rightarrow> field" where
  "optional n t d = Field n (TOptional t) (Some d) None"

definition User :: "field list" where
  "User =
     [required ''id'' TInt,
      required ''email'' TStr,
      required ''first_name'' TStr,
      required ''last_name'' TStr,
      required ''login'' TStr,
      required ''title'' TStr,
      required ''role'' TStr,
      required ''is_active'' TBool,
      required ''created_at'' TDatetime,
      required ''updated_at'' TDatetime,
      required ''last_login_at'' TDatetime]"

definition Queue :: "field list" where
  "Queue =
     [required ''id'' TInt,
      required ''name'' TStr,
      required ''description'' TStr,
      required ''is_active'' TBool,
      required ''created_at'' TDatetime,
      required ''updated_at'' TDatetime]"

definition Attachment :: "field list" where
  "Attachment =
     [required ''id'' TInt,
      required ''filename'' TStr,
      required ''content_type'' TStr,
      required ''size'' TInt,
      required ''ticket_id'' TInt,
      optional ''message_id'' TInt PNone,
      required ''uploaded_by'' TInt,
      required ''created_at'' TDatetime]"

definition TicketMessage :: "field list" where
  "TicketMessage =
     [required ''id'' TInt,
      required ''ticket_id'' TInt,
      required ''content'' TStr,
      required ''message_type'' TStr,
      required ''is_internal'' TBool,
      required ''author_id'' TInt,
      required ''created_at'' TDatetime,
      required ''updated_at'' TDatetime,
      optional ''author'' (TModel ''User'' User) PNone,
      optional ''attachments'' (TList (TModel ''Attachment'' Attachment)) PNone,
      optional ''custom_fields'' (TDict TAny) PNone]"

definition Ticket :: "field list" where
  "Ticket =
     [required ''id'' TInt,
      required ''ticket_number'' TStr,
      required ''title'' TStr,
      required ''description'' TStr,
      required ''status'' TStr,
      required ''priority'' TStr,
      required ''type'' TStr,
      required ''queue_id'' TInt,
      required ''customer_id'' TInt,
      optional ''assigned_to'' TInt PNone,
      required ''created_at'' TDatetime,
      required ''updated_at'' TDatetime,
      optional ''closed_at'' TDatetime PNone,
      optional ''tags'' (TList TStr) PNone,
      optional ''custom_fields'' (TDict TAny) PNone,
      optional ''customer'' (TModel ''User'' User) PNone,
      optional ''assigned_user'' (TModel ''User'' User) PNone,
      optional ''queue'' (TModel ''Queue'' Queue) PNone,
      optional ''messages'' (TList (TModel ''TicketMessage'' TicketMessage)) PNone,
      optional ''attachments'' (TList (TModel ''Attachment'' Attachment)) PNone]"

definition Group :: "field list" where
  "Group =
     [required ''id'' TInt,
      required ''name'' TStr,
      required ''description'' TStr,
      required ''type'' TStr,
      required ''is_active'' TBool,
      required ''created_at'' TDatetime,
      required ''updated_at'' TDatetime]"

definition DashboardStats :: "field list" where
  "DashboardStats =
     [required ''total_tickets'' TInt,
      required ''open_tickets'' TInt,
      required ''closed_tickets'' TInt,
      required ''pending_tickets'' TInt,
      required ''overdue_tickets'' TInt,
      required ''unassigned_tickets'' TInt,
      required ''my_tickets'' TInt,
      required ''tickets_by_status'' (TDict TInt),
      required ''tickets_by_priority'' (TDict TInt),
      required ''tickets_by_queue'' (TDict TInt)]"

definition SearchResult :: "field list" where
  "SearchResult =
     [required ''total_count'' TInt,
      required ''page'' TInt,
      required ''page_size'' TInt,
      required ''tickets'' (TList (TModel ''Ticket'' Ticket))]"

definition InternalNote :: "field list" where
  "InternalNote =
     [required ''id'' TInt,
      required ''ticket_id'' TInt,
      required ''content'' TStr,
      required ''category'' TStr,
      required ''is_important'' TBool,
      required ''is_pinned'' TBool,
      required ''tags'' (TList TStr),
      required ''author_id'' TInt,
      required ''author_name'' TStr,
      required ''author_email'' TStr,
      required ''created_at'' TDatetime,
      required ''updated_at'' TDatetime,
      required ''edited_at'' TDatetime,
      required ''edited_by'' TInt]"

definition NoteTemplate :: "field list" where
  "NoteTemplate =
     [required ''id'' TInt,
      required ''name'' TStr,
      required ''content'' TStr,
      required ''category'' TStr,
      required ''tags'' (TList TStr),
      required ''is_important'' TBool,
      required ''created_by'' TInt,
      required ''created_at'' TDatetime,
      required ''updated_at'' TDatetime]"

definition LDAPUser :: "field list" where
  "LDAPUser =
     [required ''dn'' TStr,
      required ''username'' TStr,
      required ''email'' TStr,
      required ''first_name'' TStr,
      required ''last_name'' TStr,
      required ''display_name'' TStr,
      required ''phone'' TStr,
      required ''department'' TStr,
      required ''title'' TStr,
      required ''manager'' TStr,
      required ''groups'' (TList TStr),
      required ''attributes'' (TDict TStr),
      required ''object_guid'' TStr,
      required ''object_sid'' TStr,
      required ''last_login'' TDatetime,
      required ''is_active'' TBool]"

definition LDAPSyncResult :: "field list" where
  "LDAPSyncResult =
     [required ''users_found'' TInt,
      required ''users_created'' TInt,
      required ''users_updated'' TInt,
      required ''users_disabled'' TInt,
      required ''groups_found'' TInt,
      required ''groups_created'' TInt,
      required ''groups_updated'' TInt,
      required ''errors'' (TList TStr),
      required ''start_time'' TDatetime,
      required ''end_time'' TDatetime,
      required ''duration'' TStr,
      required ''dry_run'' TBool]"

definition Webhook :: "field list" where
  "Webhook =
     [required ''id'' TInt,
      required ''name'' TStr,
      required ''url'' TStr,
      required ''events'' (TList TStr),
      optional ''secret'' TStr PNone,
      required ''is_active'' TBool,
      required ''retry_count'' TInt,
      required ''timeout'' TInt,
      optional ''headers'' (TDict TStr) PNone,
      required ''created_at'' TDatetime,
      required ''updated_at'' TDatetime,
      optional ''last_fired_at'' TDatetime PNone]"

definition WebhookDelivery :: "field list" where
  "WebhookDelivery =
     [required ''id'' TInt,
      required ''webhook_id'' TInt,
      required ''event'' TStr,
      required ''payload'' TStr,
      required ''status_code'' TInt,
      required ''response'' TStr,
      required ''success'' TBool,
      required ''attempt'' TInt,
      required ''delivered_at'' TDatetime]"

definition TicketCreateRequest :: "field list" where
  "TicketCreateRequest =
     [required ''title'' TStr,
      required ''description'' TStr,
      optional ''priority'' TStr (PStr ''normal''),
      optional ''type'' TStr (PStr ''incident''),
      optional ''queue_id'' TInt PNone,
      optional ''customer_id'' TInt PNone,
      optional ''assigned_to'' TInt PNone,
      optional ''tags'' (TList TStr) PNone,
      optional ''custom_fields'' (TDict TAny) PNone]"

definition TicketUpdateRequest :: "field list" where
  "TicketUpdateRequest =
     [optional ''title'' TStr PNone,
      optional ''description'' TStr PNone,
      optional ''status'' TStr PNone,
      optional ''priority'' TStr PNone,
      optional ''type'' TStr PNone,
      optional ''queue_id'' TInt PNone,
      optional ''assigned_to'' TInt PNone,
      optional ''tags'' (TList TStr) PNone,
      optional ''custom_fields'' (TDict TAny) PNone]"

definition TicketListOptions :: "field list" where
  "TicketListOptions =
     [optional ''page'' TInt (PInt 1),
      optional ''page_size'' TInt (PInt 50),
      optional ''status'' (TList TStr) PNone,
      optional ''priority'' (TList TStr) PNone,
      optional ''queue_id'' (TList TInt) PNone,
      optional ''assigned_to'' TInt PNone,
      optional ''customer_id'' TInt PNone,
      optional ''search'' TStr PNone,
      optional ''tags'' (TList TStr) PNone,
      optional ''created_after'' TDatetime PNone,
      optional ''created_before'' TDatetime PNone,
      optional ''sort_by'' TStr (PStr ''created_at''),
      optional ''sort_order'' TStr (PStr ''desc'')]"

definition TicketListResponse :: "field list" where
  "TicketListResponse =
     [required ''tickets'' (TList (TModel ''Ticket'' Ticket)),
      required ''total_count'' TInt,
      required ''page'' TInt,
      required ''page_size'' TInt,
      required ''total_pages'' TInt]"

definition MessageCreateRequest :: "field list" where
  "MessageCreateRequest =
     [required ''content'' TStr,
      optional ''message_type'' TStr (PStr ''note''),
      optional ''is_internal'' TBool (PBool False),
      optional ''custom_fields'' (TDict TAny) PNone]"

definition UserCreateRequest :: "field list" where
  "UserCreateRequest =
     [required ''email'' TStr,
      required ''first_name'' TStr,
      required ''last_name'' TStr,
      required ''login'' TStr,
      optional ''title'' TStr (PStr []),
      optional ''role'' TStr (PStr ''user''),
      Field ''password'' TStr None (Some 8)]"

definition UserUpdateRequest :: "field list" where
  "UserUpdateRequest =
     [optional ''email'' TStr PNone,
      optional ''first_name'' TStr PNone,
      optional ''last_name'' TStr PNone,
      optional ''title'' TStr PNone,
      optional ''role'' TStr PNone,
      optional ''is_active'' TBool PNone]"

definition AuthLoginRequest :: "field list" where
  "AuthLoginRequest =
     [required ''email'' TStr,
      required ''password'' TStr]"

definition AuthLoginResponse :: "field list" where
  "AuthLoginResponse =
     [required ''token'' TStr,
      required ''refresh_token'' TStr,
      required ''expires_at'' TDatetime,
      required ''user'' (TModel ''User'' User)]"

definition APIResponse :: "field list" where
  "APIResponse =
     [required ''success'' TBool,
      optional ''data'' TAny PNone,
      optional ''error'' TStr PNone,
      optional ''message'' TStr PNone]"

definition ErrorResponse :: "field list" where
  "ErrorResponse =
     [required ''error'' TStr,
      required ''message'' TStr,
      required ''code'' TInt]"

definition record_classes :: "field list list" where
  "record_classes =
     [Ticket, TicketMessage, User, Queue, Attachment, Group, DashboardStats, SearchResult,
      InternalNote, NoteTemplate, LDAPUser, LDAPSyncResult, Webhook, WebhookDelivery,
      TicketCreateRequest, TicketUpdateRequest, TicketListOptions, TicketListResponse,
      MessageCreateRequest, UserCreateRequest, UserUpdateRequest, AuthLoginRequest,
      AuthLoginResponse, APIResponse, ErrorResponse]"

section \<open>Authentication strategies\<close>

text \<open>
  Modelled from the spec: the authentication strategies (\<^verbatim>\<open>auth.py\<close>, imported by
  \<^verbatim>\<open>__init__.py\<close> as \<^verbatim>\<open>APIKeyAuth\<close>, \<^verbatim>\<open>JWTAuth\<close>, \<^verbatim>\<open>OAuth2Auth\<close>, is not among the
  sources). A credential is opaque material with an optional expiry instant and an optional
  refresh token. The capability set is \<open>apply_auth\<close>, \<open>is_expired\<close>, \<open>refresh\<close>. The
  static-key variant attaches a fixed header, never expires and refreshes as a no-op. The
  bearer variant attaches the access token as a bearer header, is expired from the safety
  margin before its expiry on, and refreshes by exchanging its refresh token at the
  endpoint, which answers with a new credential or rejects the token.
\<close>

record credential =
  material :: string
  expiry :: "int option"
  refresh_token :: "string option"

record request =
  rmethod :: string
  rpath :: string
  rheaders :: "(string \<times> string) list"
  rbody :: "pyval option"

datatype auth_strategy = StaticKey string credential | BearerWithRefresh credential

definition safety_margin :: int where
  "safety_margin = 30"

fun apply_auth :: "auth_strategy \<Rightarrow> request \<Rightarrow> request" where
  "apply_auth (StaticKey h cr) req = req\<lparr>rheaders := (h, material cr) # rheaders req\<rparr>"
| "apply_auth (BearerWithRefresh cr) req =
     req\<lparr>rheaders := (''Authorization'', ''Bearer '' @ material cr) # rheaders req\<rparr>"

fun is_expired :: "auth_strategy \<Rightarrow> int \<Rightarrow> bool" where
  "is_expired (StaticKey h cr) now = False"
| "is_expired (BearerWithRefresh cr) now =
     (case expiry cr of None \<Rightarrow> False | Some e \<Rightarrow> e - safety_margin \<le> now)"

fun refresh :: "(string \<Rightarrow> credential option) \<Rightarrow> auth_strategy \<Rightarrow> error + auth_strategy" where
  "refresh endpoint (StaticKey h cr) = Inr (StaticKey h cr)"
| "refresh endpoint (BearerWithRefresh cr) =
     (case refresh_token cr of
        None \<Rightarrow> Inl UnauthorizedError
      | Some rt \<Rightarrow>
          (case endpoint rt of
             None \<Rightarrow> Inl UnauthorizedError
           | Some cr' \<Rightarrow> Inr (BearerWithRefresh cr')))"

section \<open>Request pipeline\<close>

text \<open>
  Modelled from the spec: the request pipeline (\<^verbatim>\<open>client.py\<close>, imported by
  \<^verbatim>\<open>__init__.py\<close> as \<^verbatim>\<open>GoatflowClient\<close>, is not among the sources). The transport answers
  the \<open>n\<close>-th dispatch of a call with \<open>server n\<close>: a connection failure, a timeout, or a
  response with its status, retry-after hint, message and decoded body
  (\<open>None\<close> when the body does not decode). \<open>execute\<close> follows the algorithm of the spec:
  refresh first when the strategy reports expired; dispatch; on a 401 force one refresh
  and dispatch once more; classify whatever comes back. It returns the outcome, the
  strategy it ends with, and the trace of refreshes and dispatches it made.
\<close>

datatype transport_result =
    ConnectionFailed
  | TimedOut
  | Response int "int option" string "pyval option"

datatype event = Refresh | Dispatch request

fun is_unauthorized :: "transport_result \<Rightarrow> bool" where
  "is_unauthorized (Response st ra msg body) = (st = 401)"
| "is_unauthorized _ = False"

fun classify :: "transport_result \<Rightarrow> error + pyval" where
  "classify ConnectionFailed = Inl NetworkError"
| "classify TimedOut = Inl TimeoutError"
| "classify (Response st ra msg body) =
     (if 200 \<le> st \<and> st < 300 then
        (case body of Some b \<Rightarrow> Inr b | None \<Rightarrow> Inl (ValidationError []))
      else if st = 401 then Inl UnauthorizedError
      else if st = 403 then Inl ForbiddenError
      else if st = 404 then Inl NotFoundError
      else if st = 429 then Inl (RateLimitError ra)
      else Inl (GoatflowError st msg))"

text \<open>
  Step 1 of the algorithm: a strategy that reports expired is refreshed before the request
  is built, and \<open>pre_refresh\<close> is the refresh this adds to the trace.
\<close>

definition ensure_fresh ::
  "(string \<Rightarrow> credential option) \<Rightarrow> int \<Rightarrow> auth_strategy \<Rightarrow> error + auth_strategy" where
  "ensure_fresh endpoint now s = (if is_expired s now then refresh endpoint s else Inr s)"

definition pre_refresh :: "int \<Rightarrow> auth_strategy \<Rightarrow> event list" where
  "pre_refresh now s = (if is_expired s now then [Refresh] else [])"

definition execute ::
  "(string \<Rightarrow> credential option) \<Rightarrow> (nat \<Rightarrow> transport_result) \<Rightarrow> int \<Rightarrow> auth_strategy
     \<Rightarrow> request \<Rightarrow> (error + pyval) \<times> auth_strategy \<times> event list" where
  "execute endpoint server now s req =
     (let pre = pre_refresh now s
      in case ensure_fresh endpoint now s of
           Inl e \<Rightarrow> (Inl UnauthorizedError, s, pre)
         | Inr s1 \<Rightarrow>
             (let d1 = Dispatch (apply_auth s1 req)
              in if is_unauthorized (server 0) then
                   (case refresh endpoint s1 of
                      Inl e \<Rightarrow> (Inl UnauthorizedError, s1, pre @ [d1, Refresh])
                    | Inr s2 \<Rightarrow>
                        (classify (server 1), s2,
                         pre @ [d1, Refresh, Dispatch (apply_auth s2 req)]))
                 else (classify (server 0), s1, pre @ [d1])))"

fun is_dispatch :: "event \<Rightarrow> bool" where
  "is_dispatch (Dispatch req) = True"
| "is_dispatch Refresh = False"

definition dispatches :: "event list \<Rightarrow> nat" where
  "dispatches tr = length (filter is_dispatch tr)"

section \<open>Listing tickets\<close>

text \<open>
  Modelled from the spec: the \<^verbatim>\<open>list\<close> operation of the ticket client (\<^verbatim>\<open>client.py\<close> is
  not among the sources). The server's listing is \<^verbatim>\<open>{items, total_count, page,
  page_size}\<close>; \<^verbatim>\<open>list\<close>, called with \<^verbatim>\<open>page_size=p\<close>, computes
  \<^verbatim>\<open>total_pages = ceil(total_count / page_size)\<close> itself and builds the envelope, which in
  the source is the class \<^verbatim>\<open>TicketListResponse\<close>.
\<close>

record listing =
  l_items :: "pyval list"
  l_total_count :: int
  l_page :: int
  l_page_size :: int

definition total_pages_of :: "int \<Rightarrow> int \<Rightarrow> int" where
  "total_pages_of c p = \<lceil>rat_of_int c / rat_of_int p\<rceil>"

definition list_tickets :: "coercions \<Rightarrow> int \<Rightarrow> listing \<Rightarrow> error + payload" where
  "list_tickets c p srv =
     construct c BaseGoatflowModel TicketListResponse
       [(''tickets'', PList (l_items srv)),
        (''total_count'', PInt (l_total_count srv)),
        (''page'', PInt (l_page srv)),
        (''page_size'', PInt (l_page_size srv)),
        (''total_pages'', PInt (total_pages_of (l_total_count srv) p))]"

section \<open>Creating a ticket\<close>

text \<open>
  Modelled from the spec: the encoding of a request record to a request body by the
  \<^verbatim>\<open>create\<close> operation (\<^verbatim>\<open>client.py\<close> is not among the sources). The body is the
  record's \<open>model_dump\<close>, with or without the fields that are \<^verbatim>\<open>None\<close>; the response is
  decoded by constructing a \<open>Ticket\<close> from it.
\<close>

definition encode_request :: "bool \<Rightarrow> payload \<Rightarrow> payload" where
  "encode_request exclude_none r = model_dump exclude_none r"

definition decode_ticket :: "coercions \<Rightarrow> payload \<Rightarrow> error + payload" where
  "decode_ticket c body = construct c BaseGoatflowModel Ticket body"

section \<open>Sample inputs\<close>

definition queue_payload :: payload where
  "queue_payload =
     [(''id'', PInt 7), (''name'', PStr ''support''), (''description'', PStr ''first line''),
      (''is_active'', PBool True), (''created_at'', PDatetime 1700000000),
      (''updated_at'', PDatetime 1700000500)]"

definition ticket_request_payload :: payload where
  "ticket_request_payload =
     [(''title'', PStr ''Printer jam''), (''description'', PStr ''Tray 2 is stuck'')]"

definition user_payload :: payload where
  "user_payload =
     [(''email'', PStr ''ann@example.org''), (''first_name'', PStr ''Ann''),
      (''last_name'', PStr ''Lee''), (''login'', PStr ''ann''),
      (''password'', PStr ''s3cretpw'')]"

definition ticket_response :: payload where
  "ticket_response =
     [(''id'', PInt 101), (''ticket_number'', PStr ''T-101''),
      (''title'', PStr ''Printer jam''), (''description'', PStr ''Tray 2 is stuck''),
      (''status'', PStr ''new''), (''priority'', PStr ''normal''), (''type'', PStr ''incident''),
      (''queue_id'', PInt 7), (''customer_id'', PInt 3),
      (''created_at'', PDatetime 1700000000), (''updated_at'', PDatetime 1700000000)]"

definition ticket_request_record :: payload where
  "ticket_request_record =
     [(''title'', PStr ''Printer jam''), (''description'', PStr ''Tray 2 is stuck''),
      (''priority'', PStr ''normal''), (''type'', PStr ''incident''),
      (''queue_id'', PNone), (''customer_id'', PNone), (''assigned_to'', PNone),
      (''tags'', PNone), (''custom_fields'', PNone)]"

definition ticket_record :: payload where
  "ticket_record =
     [(''id'', PInt 101), (''ticket_number'', PStr ''T-101''),
      (''title'', PStr ''Printer jam''), (''description'', PStr ''Tray 2 is stuck''),
      (''status'', PStr ''new''), (''priority'', PStr ''normal''), (''type'', PStr ''incident''),
      (''queue_id'', PInt 7), (''customer_id'', PInt 3), (''assigned_to'', PNone),
      (''created_at'', PDatetime 1700000000), (''updated_at'', PDatetime 1700000000),
      (''closed_at'', PNone), (''tags'', PNone), (''custom_fields'', PNone),
      (''customer'', PNone), (''assigned_user'', PNone), (''queue'', PNone),
      (''messages'', PNone), (''attachments'', PNone)]"

definition sample_listing :: listing where
  "sample_listing =
     \<lparr>l_items = [PDict ticket_response], l_total_count = 120, l_page = 1, l_page_size = 50\<rparr>"

definition always_unauthorized :: "nat \<Rightarrow> transport_result" where
  "always_unauthorized n = Response 401 None ''unauthorized'' None"

definition sample_request :: request where
  "sample_request = \<lparr>rmethod = ''GET'', rpath = ''/tickets'', rheaders = [], rbody = None\<rparr>"

definition sample_bearer :: auth_strategy where
  "sample_bearer = BearerWithRefresh
     \<lparr>material = ''old-token'', expiry = Some 1000, refresh_token = Some ''r-1''\<rparr>"

definition refreshed_bearer :: auth_strategy where
  "refreshed_bearer = BearerWithRefresh
     \<lparr>material = ''new-token'', expiry = Some 5000, refresh_token = Some ''r-2''\<rparr>"

definition sample_endpoint :: "string \<Rightarrow> credential option" where
  "sample_endpoint rt =
     (if rt = ''r-1''
      then Some \<lparr>material = ''new-token'', expiry = Some 5000, refresh_token = Some ''r-2''\<rparr>
      else None)"

definition rejecting_endpoint :: "string \<Rightarrow> credential option" where
  "rejecting_endpoint rt = None"

definition unauthorized_once :: "nat \<Rightarrow> transport_result" where
  "unauthorized_once n =
     (if n = 0 then Response 401 None ''token expired'' None
      else Response 200 None [] (Some (PDict [(''ok'', PBool True)])))"

text \<open>A payload entry that is absent, \<^verbatim>\<open>None\<close> or a string.\<close>

fun absent_or_str :: "pyval option \<Rightarrow> bool" where
  "absent_or_str None = True"
| "absent_or_str (Some PNone) = True"
| "absent_or_str (Some (PStr s)) = True"
| "absent_or_str (Some v) = False"

section \<open>Properties of construction\<close>

lemma at_loc_Nil_iff: "at_loc n es = [] \<longleftrightarrow> es = []"
  by (simp add: at_loc_def)

lemma validate_list_err_nonempty:
  "(\<And>v. v \<in> set vs \<Longrightarrow> vt v \<noteq> Inl []) \<Longrightarrow> validate_list vt vs \<noteq> Inl []"
  by (induction vs) (auto split: sum.splits)

lemma validate_dict_err_nonempty:
  "(\<And>v. v \<in> snd ` set kvs \<Longrightarrow> vt v \<noteq> Inl []) \<Longrightarrow> validate_dict vt kvs \<noteq> Inl []"
  by (induction kvs) (auto split: sum.splits simp: at_loc_Nil_iff)

lemma finish_err_nonempty: "finish cfg fs p res \<noteq> Inl []"
  by (auto simp: finish_def Let_def split: prod.splits extra_policy.splits)

lemma validate_err_nonempty: "validate c cfg t v \<noteq> Inl []"
proof (induction t arbitrary: v rule: ftype.induct[where ?P2.0 = "\<lambda>_. True"])
  case (TList t)
  show ?case
    using validate_list_err_nonempty[of _ "validate c cfg t"] TList
    by (auto split: pyval.splits sum.splits)
next
  case (TDict t)
  show ?case
    using validate_dict_err_nonempty[of _ "validate c cfg t"] TDict
    by (auto split: pyval.splits sum.splits)
next
  case (TModel n fs)
  show ?case
    by (auto split: pyval.splits sum.splits simp: finish_err_nonempty)
qed (auto split: pyval.splits option.splits)

lemma validate_field_err_nonempty: "validate_field c cfg f v \<noteq> Inl []"
  using validate_err_nonempty by (cases f) (auto split: sum.splits list.splits)

lemma vf_missing:
  "f \<in> set fs \<Longrightarrow> fdefault f = None \<Longrightarrow> map_of p (fname f) = None
    \<Longrightarrow> ([fname f], Missing) \<in> set (fst (validate_fields c cfg fs p))"
  by (induction fs) (auto split: prod.splits option.splits sum.splits)

lemma vf_ok_keys:
  "fst (validate_fields c cfg fs p) = [] \<Longrightarrow>
     map fst (snd (validate_fields c cfg fs p)) = map fname fs"
  by (induction fs)
     (auto split: prod.splits option.splits sum.splits
           simp: at_loc_Nil_iff validate_field_err_nonempty)

lemma vf_ok_field:
  "fst (validate_fields c cfg fs p) = [] \<Longrightarrow> f \<in> set fs \<Longrightarrow>
     (case map_of p (fname f) of
        None \<Rightarrow> fdefault f \<noteq> None
      | Some v \<Rightarrow> (\<exists>w. validate_field c cfg f v = Inr w))"
  by (induction fs) 
     (auto split: prod.splits option.splits sum.splits
           simp: at_loc_Nil_iff validate_field_err_nonempty)

lemma vf_ok_lookup:
  "fst (validate_fields c cfg fs p) = [] \<Longrightarrow> distinct (map fname fs) \<Longrightarrow> f \<in> set fs \<Longrightarrow>
     map_of (snd (validate_fields c cfg fs p)) (fname f) =
       (case map_of p (fname f) of
          None \<Rightarrow> fdefault f
        | Some v \<Rightarrow> (case validate_field c cfg f v of Inl e \<Rightarrow> None | Inr w \<Rightarrow> Some w))"
proof (induction fs)
  case Nil
  then show ?case by simp
next
  case (Cons g fs)
  then show ?case
    by (auto split: prod.splits option.splits sum.splits
             simp: vf_ok_keys image_iff at_loc_Nil_iff validate_field_err_nonempty)
qed

lemma extra_fields_Nil_iff: "extra_fields fs p = [] \<longleftrightarrow> fst ` set p \<subseteq> fname ` set fs"
  by (auto simp: extra_fields_def filter_empty_conv image_iff) force

lemma extra_fields_mem:
  "(k, v) \<in> set p \<Longrightarrow> k \<notin> fname ` set fs \<Longrightarrow> (k, v) \<in> set (extra_fields fs p)"
  by (auto simp: extra_fields_def)

lemma construct_Inr_iff:
  "construct c BaseGoatflowModel fs p = Inr r \<longleftrightarrow>
     fst (validate_fields c BaseGoatflowModel fs p) = [] \<and> extra_fields fs p = [] \<and>
     r = snd (validate_fields c BaseGoatflowModel fs p)"
  by (auto simp: construct_def finish_def BaseGoatflowModel_def Let_def
           split: prod.splits sum.splits)

lemma construct_Inl_iff:
  "construct c BaseGoatflowModel fs p = Inl e \<longleftrightarrow>
     e = ValidationError (fst (validate_fields c BaseGoatflowModel fs p) @
           map (\<lambda>(k, v). ([k], ExtraForbidden)) (extra_fields fs p)) \<and>
     (fst (validate_fields c BaseGoatflowModel fs p) \<noteq> [] \<or> extra_fields fs p \<noteq> [])"
  by (auto simp: construct_def finish_def BaseGoatflowModel_def Let_def
           split: prod.splits sum.splits)

lemmas eval_defs = construct_def finish_def extra_fields_def BaseGoatflowModel_def
  no_coercion_def check_constraints_def at_loc_def required_def optional_def Let_def


text \<open>
  C2. For every record class (every list of field declarations under the configuration of
  \<open>BaseGoatflowModel\<close>) and every payload: a payload without a value for a required
  field is refused with a \<open>ValidationError\<close> that reports the field as missing; a payload
  with a key that the class does not declare is refused with a \<open>ValidationError\<close> that
  reports the key as forbidden; and whenever construction succeeds, every required field
  had a value in the payload and that value passed the validation of the field's type.
\<close>

theorem construct_rejects_missing_and_undeclared:
  "(\<forall>f \<in> set fs. fdefault f = None \<and> fname f \<notin> fst ` set p \<longrightarrow>
      (\<exists>es. construct c BaseGoatflowModel fs p = Inl (ValidationError es) \<and>
            ([fname f], Missing) \<in> set es)) \<and>
   (\<forall>k \<in> fst ` set p. k \<notin> fname ` set fs \<longrightarrow>
      (\<exists>es. construct c BaseGoatflowModel fs p = Inl (ValidationError es) \<and>
            ([k], ExtraForbidden) \<in> set es)) \<and>
   (\<forall>r. construct c BaseGoatflowModel fs p = Inr r \<longrightarrow>
      (\<forall>f \<in> set fs. fdefault f = None \<longrightarrow>
         (\<exists>v w. map_of p (fname f) = Some v \<and>
                validate_field c BaseGoatflowModel f v = Inr w)))"
proof (intro conjI ballI allI impI)
  fix f assume f: "f \<in> set fs" and h: "fdefault f = None \<and> fname f \<notin> fst ` set p"
  let ?es = "fst (validate_fields c BaseGoatflowModel fs p)"
  from h have "map_of p (fname f) = None" by (simp add: map_of_eq_None_iff)
  with f h have m: "([fname f], Missing) \<in> set ?es" by (simp add: vf_missing)
  then have "?es \<noteq> []" by auto
  then have "construct c BaseGoatflowModel fs p =
      Inl (ValidationError (?es @ map (\<lambda>(k, v). ([k], ExtraForbidden)) (extra_fields fs p)))"
    by (simp add: construct_Inl_iff)
  with m show "\<exists>es. construct c BaseGoatflowModel fs p = Inl (ValidationError es) \<and>
            ([fname f], Missing) \<in> set es" by auto
next
  fix k assume k: "k \<in> fst ` set p" and u: "k \<notin> fname ` set fs"
  let ?es = "fst (validate_fields c BaseGoatflowModel fs p)"
  from k obtain v where "(k, v) \<in> set p" by auto
  with u have x: "(k, v) \<in> set (extra_fields fs p)" by (simp add: extra_fields_mem)
  then have "extra_fields fs p \<noteq> []" by auto
  then have "construct c BaseGoatflowModel fs p =
      Inl (ValidationError (?es @ map (\<lambda>(k, v). ([k], ExtraForbidden)) (extra_fields fs p)))"
    by (simp add: construct_Inl_iff)
  moreover from x have "([k], ExtraForbidden) \<in>
      set (?es @ map (\<lambda>(k, v). ([k], ExtraForbidden)) (extra_fields fs p))"
    by force
  ultimately show "\<exists>es. construct c BaseGoatflowModel fs p = Inl (ValidationError es) \<and>
            ([k], ExtraForbidden) \<in> set es" by blast
next
  fix r f
  assume r: "construct c BaseGoatflowModel fs p = Inr r" and f: "f \<in> set fs"
    and d: "fdefault f = None"
  from r have "fst (validate_fields c BaseGoatflowModel fs p) = []"
    by (simp add: construct_Inr_iff)
  from vf_ok_field[OF this f] d
  show "\<exists>v w. map_of p (fname f) = Some v \<and> validate_field c BaseGoatflowModel f v = Inr w"
    by (auto split: option.splits)
qed

theorem construct_rejects_missing_and_undeclared_witness:
  "(required ''id'' TInt \<in> set Queue \<and> fdefault (required ''id'' TInt) = None \<and>
      fname (required ''id'' TInt) \<notin> fst ` set (tl queue_payload) \<and>
      (\<exists>es. construct no_coercion BaseGoatflowModel Queue (tl queue_payload)
               = Inl (ValidationError es) \<and>
            ([fname (required ''id'' TInt)], Missing) \<in> set es)) \<and>
   (''colour'' \<in> fst ` set ((''colour'', PStr ''red'') # queue_payload) \<and>
      ''colour'' \<notin> fname ` set Queue \<and>
      (\<exists>es. construct no_coercion BaseGoatflowModel Queue
               ((''colour'', PStr ''red'') # queue_payload) = Inl (ValidationError es) \<and>
            ([''colour''], ExtraForbidden) \<in> set es)) \<and>
   (construct no_coercion BaseGoatflowModel Queue queue_payload = Inr queue_payload \<and>
      (\<exists>v w. map_of queue_payload (fname (required ''id'' TInt)) = Some v \<and>
             validate_field no_coercion BaseGoatflowModel (required ''id'' TInt) v = Inr w))"
proof -
  let ?f = "required ''id'' TInt"
  have a: "?f \<in> set Queue" "fdefault ?f = None \<and> fname ?f \<notin> fst ` set (tl queue_payload)"
    by (simp_all add: Queue_def required_def queue_payload_def)
  have b: "''colour'' \<in> fst ` set ((''colour'', PStr ''red'') # queue_payload)"
    "''colour'' \<notin> fname ` set Queue"
    by (simp_all add: Queue_def required_def)
  have c: "construct no_coercion BaseGoatflowModel Queue queue_payload = Inr queue_payload"
    by (simp add: eval_defs Queue_def queue_payload_def)
  have d: "?f \<in> set Queue" "fdefault ?f = None"
    by (simp_all add: Queue_def required_def)
  note t = construct_rejects_missing_and_undeclared
  from t[of Queue "tl queue_payload" no_coercion, THEN conjunct1, rule_format, OF a]
    t[of Queue "(''colour'', PStr ''red'') # queue_payload" no_coercion,
      THEN conjunct2, THEN conjunct1, rule_format, OF b]
    t[of Queue queue_payload no_coercion, THEN conjunct2, THEN conjunct2, rule_format, OF c d]
    a b c d
  show ?thesis by blast
qed

text \<open>
  C7. For every record class and every payload, construction has exactly two outcomes.
  Either it raises a \<open>ValidationError\<close> that lists at least one error, or it returns a
  record that holds every declared field, in the order of the declarations and no other,
  each with the validated value of the payload or, where the payload has none, with the
  declared default. No record with a field missing or unvalidated is returned.
\<close>

theorem construct_all_or_nothing:
  assumes "distinct (map fname fs)"
  shows "(\<exists>es. es \<noteq> [] \<and> construct c BaseGoatflowModel fs p = Inl (ValidationError es)) \<or>
    (\<exists>r. construct c BaseGoatflowModel fs p = Inr r \<and> map fst r = map fname fs \<and>
       (\<forall>f \<in> set fs. \<exists>w. map_of r (fname f) = Some w \<and>
          (case map_of p (fname f) of
             None \<Rightarrow> fdefault f = Some w
           | Some v \<Rightarrow> validate_field c BaseGoatflowModel f v = Inr w)))"
proof (cases "construct c BaseGoatflowModel fs p")
  case (Inl e)
  then show ?thesis by (auto simp: construct_Inl_iff)
next
  case (Inr r)
  then have ok: "fst (validate_fields c BaseGoatflowModel fs p) = []"
    and r: "r = snd (validate_fields c BaseGoatflowModel fs p)"
    by (simp_all add: construct_Inr_iff)
  have keys: "map fst r = map fname fs" using ok r by (simp add: vf_ok_keys)
  have "\<exists>w. map_of r (fname f) = Some w \<and>
          (case map_of p (fname f) of
             None \<Rightarrow> fdefault f = Some w
           | Some v \<Rightarrow> validate_field c BaseGoatflowModel f v = Inr w)"
    if f: "f \<in> set fs" for f
    using vf_ok_lookup[OF ok assms f] vf_ok_field[OF ok f] r
    by (auto split: option.splits sum.splits)
  with Inr keys show ?thesis by blast
qed

theorem construct_all_or_nothing_witness:
  "distinct (map fname Queue) \<and>
   construct no_coercion BaseGoatflowModel Queue queue_payload = Inr queue_payload \<and>
   map fst queue_payload = map fname Queue \<and>
   (\<exists>es. es \<noteq> [] \<and> construct no_coercion BaseGoatflowModel Queue (tl queue_payload)
      = Inl (ValidationError es))"
proof -
  have d: "distinct (map fname Queue)" by (simp add: Queue_def required_def)
  have c: "construct no_coercion BaseGoatflowModel Queue queue_payload = Inr queue_payload"
    by (simp add: eval_defs Queue_def queue_payload_def)
  have e: "construct no_coercion BaseGoatflowModel Queue (tl queue_payload) =
      Inl (ValidationError [([''id''], Missing)])"
    by (simp add: eval_defs Queue_def queue_payload_def)
  from construct_all_or_nothing[OF d, of no_coercion queue_payload]
    construct_all_or_nothing[OF d, of no_coercion "tl queue_payload"] c d e
  show ?thesis by auto
qed

lemma record_classes_distinct: "list_all (\<lambda>fs. distinct (map fname fs)) record_classes"
  by (simp add: record_classes_def required_def optional_def Ticket_def TicketMessage_def
        User_def Queue_def Attachment_def Group_def DashboardStats_def SearchResult_def
        InternalNote_def NoteTemplate_def LDAPUser_def LDAPSyncResult_def Webhook_def
        WebhookDelivery_def TicketCreateRequest_def TicketUpdateRequest_def
        TicketListOptions_def TicketListResponse_def MessageCreateRequest_def
        UserCreateRequest_def UserUpdateRequest_def AuthLoginRequest_def AuthLoginResponse_def
        APIResponse_def ErrorResponse_def)

section \<open>Defaults and constraints of the request classes\<close>

lemma absent_key: "k \<notin> fst ` set p \<Longrightarrow> map_of p k = None"
  by (simp add: map_of_eq_None_iff)

text \<open>
  C9. A \<open>TicketCreateRequest\<close> built from a payload that holds only \<open>title\<close> and
  \<open>description\<close>, each a value that the \<open>str\<close> validation accepts, is constructed, and
  the record has \<open>priority\<close> equal to \<open>normal\<close> and \<open>type\<close> equal to \<open>incident\<close>: the
  declared defaults are filled in for the omitted fields, and the remaining optional
  fields are \<open>None\<close>.
\<close>

theorem ticket_create_request_defaults:
  assumes keys: "fst ` set p = {''title'', ''description''}"
    and t: "map_of p ''title'' = Some tv" "validate c BaseGoatflowModel TStr tv = Inr tw"
    and d: "map_of p ''description'' = Some dv" "validate c BaseGoatflowModel TStr dv = Inr dw"
  shows "construct c BaseGoatflowModel TicketCreateRequest p =
     Inr [(''title'', tw), (''description'', dw), (''priority'', PStr ''normal''),
          (''type'', PStr ''incident''), (''queue_id'', PNone), (''customer_id'', PNone),
          (''assigned_to'', PNone), (''tags'', PNone), (''custom_fields'', PNone)]"
proof -
  have none: "map_of p ''priority'' = None" "map_of p ''type'' = None"
    "map_of p ''queue_id'' = None" "map_of p ''customer_id'' = None"
    "map_of p ''assigned_to'' = None" "map_of p ''tags'' = None"
    "map_of p ''custom_fields'' = None"
    by (rule absent_key, simp add: keys)+
  have ex: "extra_fields TicketCreateRequest p = []"
    unfolding extra_fields_Nil_iff keys
    by (simp add: TicketCreateRequest_def required_def optional_def)
  have ft: "validate_field c BaseGoatflowModel (Field ''title'' TStr None None) tv = Inr tw"
    using t(2) by (simp add: check_constraints_def del: validate.simps)
  have fd: "validate_field c BaseGoatflowModel (Field ''description'' TStr None None) dv = Inr dw"
    using d(2) by (simp add: check_constraints_def del: validate.simps)
  have vf: "validate_fields c BaseGoatflowModel TicketCreateRequest p =
     ([], [(''title'', tw), (''description'', dw), (''priority'', PStr ''normal''),
          (''type'', PStr ''incident''), (''queue_id'', PNone), (''customer_id'', PNone),
          (''assigned_to'', PNone), (''tags'', PNone), (''custom_fields'', PNone)])"
    by (simp add: TicketCreateRequest_def required_def optional_def none t(1) d(1) ft fd
          del: validate.simps validate_field.simps)
  show ?thesis by (simp add: construct_Inr_iff vf ex)
qed

theorem ticket_create_request_defaults_witness:
  "fst ` set ticket_request_payload = {''title'', ''description''} \<and>
   map_of ticket_request_payload ''title'' = Some (PStr ''Printer jam'') \<and>
   validate no_coercion BaseGoatflowModel TStr (PStr ''Printer jam'') = Inr (PStr ''Printer jam'') \<and>
   map_of ticket_request_payload ''description'' = Some (PStr ''Tray 2 is stuck'') \<and>
   validate no_coercion BaseGoatflowModel TStr (PStr ''Tray 2 is stuck'')
     = Inr (PStr ''Tray 2 is stuck'') \<and>
   construct no_coercion BaseGoatflowModel TicketCreateRequest ticket_request_payload =
     Inr [(''title'', PStr ''Printer jam''), (''description'', PStr ''Tray 2 is stuck''),
          (''priority'', PStr ''normal''), (''type'', PStr ''incident''),
          (''queue_id'', PNone), (''customer_id'', PNone), (''assigned_to'', PNone),
          (''tags'', PNone), (''custom_fields'', PNone)]"
proof -
  have k: "fst ` set ticket_request_payload = {''title'', ''description''}"
    by (simp add: ticket_request_payload_def)
  have t: "map_of ticket_request_payload ''title'' = Some (PStr ''Printer jam'')"
    "validate no_coercion BaseGoatflowModel TStr (PStr ''Printer jam'') = Inr (PStr ''Printer jam'')"
    by (simp_all add: ticket_request_payload_def)
  have d: "map_of ticket_request_payload ''description'' = Some (PStr ''Tray 2 is stuck'')"
    "validate no_coercion BaseGoatflowModel TStr (PStr ''Tray 2 is stuck'')
       = Inr (PStr ''Tray 2 is stuck'')"
    by (simp_all add: ticket_request_payload_def)
  from ticket_create_request_defaults[OF k t d] k t d show ?thesis by simp
qed

lemma vf_field_error:
  "f \<in> set fs \<Longrightarrow> map_of p (fname f) = Some v \<Longrightarrow> validate_field c cfg f v = Inl e
    \<Longrightarrow> set (at_loc (fname f) e) \<subseteq> set (fst (validate_fields c cfg fs p))"
  by (induction fs) (auto split: prod.splits option.splits sum.splits)

lemma vf_all_ok:
  "(\<forall>f \<in> set fs. case map_of p (fname f) of
       None \<Rightarrow> fdefault f \<noteq> None
     | Some v \<Rightarrow> (\<exists>w. validate_field c cfg f v = Inr w))
    \<Longrightarrow> fst (validate_fields c cfg fs p) = []"
  by (induction fs) (auto split: prod.splits option.splits sum.splits)

lemma absent_or_str_valid:
  "absent_or_str vo \<Longrightarrow>
     (case vo of
        None \<Rightarrow> True
      | Some v \<Rightarrow> (\<exists>w. validate_field c cfg (Field n (TOptional TStr) d None) v = Inr w))"
  by (induction vo rule: absent_or_str.induct) (simp_all add: check_constraints_def)

lemma construct_lookup:
  assumes "construct c BaseGoatflowModel fs p = Inr r" "distinct (map fname fs)" "f \<in> set fs"
  shows "map_of r (fname f) =
       (case map_of p (fname f) of
          None \<Rightarrow> fdefault f
        | Some v \<Rightarrow> (case validate_field c BaseGoatflowModel f v of
                      Inl e \<Rightarrow> None | Inr w \<Rightarrow> Some w))"
  using assms vf_ok_lookup[of c BaseGoatflowModel fs p f] by (simp add: construct_Inr_iff)

text \<open>
  C10, as amended. A payload whose \<open>password\<close> is a string of fewer than 8 characters is
  refused with a \<open>ValidationError\<close> that reports the password as too short, whatever the
  other fields are. A payload whose \<open>password\<close> is a string of at least 8 characters,
  whose \<open>email\<close>, \<open>first_name\<close>, \<open>last_name\<close> and \<open>login\<close> are strings, whose
  \<open>title\<close> and \<open>role\<close> are absent, \<open>None\<close> or strings, and which holds no key that the
  class does not declare, is constructed, and the record keeps the password.
\<close>

theorem user_create_request_password:
  "(map_of p ''password'' = Some (PStr s) \<and> length s < 8 \<longrightarrow>
      (\<exists>es. construct c BaseGoatflowModel UserCreateRequest p = Inl (ValidationError es) \<and>
            ([''password''], StringTooShort) \<in> set es)) \<and>
   (map_of p ''password'' = Some (PStr s) \<and> 8 \<le> length s \<and>
    map_of p ''email'' = Some (PStr eml) \<and> map_of p ''first_name'' = Some (PStr fnm) \<and>
    map_of p ''last_name'' = Some (PStr lnm) \<and> map_of p ''login'' = Some (PStr lgn) \<and>
    absent_or_str (map_of p ''title'') \<and> absent_or_str (map_of p ''role'') \<and>
    fst ` set p \<subseteq> fname ` set UserCreateRequest \<longrightarrow>
      (\<exists>r. construct c BaseGoatflowModel UserCreateRequest p = Inr r \<and>
           map_of r ''password'' = Some (PStr s) \<and>
           map fst r = map fname UserCreateRequest))"
proof (intro conjI impI)
  let ?pw = "Field ''password'' TStr None (Some 8)"
  let ?es = "fst (validate_fields c BaseGoatflowModel UserCreateRequest p)"
  assume h: "map_of p ''password'' = Some (PStr s) \<and> length s < 8"
  have mem: "?pw \<in> set UserCreateRequest" by (simp add: UserCreateRequest_def)
  have bad: "validate_field c BaseGoatflowModel ?pw (PStr s) = Inl [([], StringTooShort)]"
    using h by (simp add: check_constraints_def)
  from vf_field_error[OF mem _ bad, of p] h
  have m: "([''password''], StringTooShort) \<in> set ?es" by (simp add: at_loc_def)
  then have "?es \<noteq> []" by auto
  then have "construct c BaseGoatflowModel UserCreateRequest p =
      Inl (ValidationError (?es @ map (\<lambda>(k, v). ([k], ExtraForbidden))
             (extra_fields UserCreateRequest p)))"
    by (simp add: construct_Inl_iff)
  with m show "\<exists>es. construct c BaseGoatflowModel UserCreateRequest p = Inl (ValidationError es)
      \<and> ([''password''], StringTooShort) \<in> set es" by auto
next
  let ?pw = "Field ''password'' TStr None (Some 8)"
  assume h: "map_of p ''password'' = Some (PStr s) \<and> 8 \<le> length s \<and>
    map_of p ''email'' = Some (PStr eml) \<and> map_of p ''first_name'' = Some (PStr fnm) \<and>
    map_of p ''last_name'' = Some (PStr lnm) \<and> map_of p ''login'' = Some (PStr lgn) \<and>
    absent_or_str (map_of p ''title'') \<and> absent_or_str (map_of p ''role'') \<and>
    fst ` set p \<subseteq> fname ` set UserCreateRequest"
  have t: "case map_of p ''title'' of None \<Rightarrow> True
     | Some v \<Rightarrow> (\<exists>w. validate_field c BaseGoatflowModel
                        (Field ''title'' (TOptional TStr) (Some (PStr [])) None) v = Inr w)"
    using h by (intro absent_or_str_valid) simp
  have r: "case map_of p ''role'' of None \<Rightarrow> True
     | Some v \<Rightarrow> (\<exists>w. validate_field c BaseGoatflowModel
                        (Field ''role'' (TOptional TStr) (Some (PStr ''user'')) None) v = Inr w)"
    using h by (intro absent_or_str_valid) simp
  have ok: "fst (validate_fields c BaseGoatflowModel UserCreateRequest p) = []"
  proof (rule vf_all_ok)
    have s1: "validate_field c BaseGoatflowModel (Field n TStr None None) (PStr x) = Inr (PStr x)"
      for n x by (simp add: check_constraints_def)
    have s2: "validate_field c BaseGoatflowModel ?pw (PStr s) = Inr (PStr s)"
      using h by (simp add: check_constraints_def)
    show "\<forall>f\<in>set UserCreateRequest.
       case map_of p (fname f) of None \<Rightarrow> fdefault f \<noteq> None
       | Some v \<Rightarrow> \<exists>w. validate_field c BaseGoatflowModel f v = Inr w"
      using h t r
      by (simp add: UserCreateRequest_def required_def optional_def s1 s2
             del: validate_field.simps split: option.splits)
  qed
  have ex: "extra_fields UserCreateRequest p = []"
    using h by (simp add: extra_fields_Nil_iff)
  let ?r = "snd (validate_fields c BaseGoatflowModel UserCreateRequest p)"
  have c: "construct c BaseGoatflowModel UserCreateRequest p = Inr ?r"
    by (simp add: construct_Inr_iff ok ex)
  have d: "distinct (map fname UserCreateRequest)"
    by (simp add: UserCreateRequest_def required_def optional_def)
  have mem: "?pw \<in> set UserCreateRequest" by (simp add: UserCreateRequest_def)
  from construct_lookup[OF c d mem] h
  have "map_of ?r ''password'' = Some (PStr s)" by (simp add: check_constraints_def)
  with c vf_ok_keys[OF ok]
  show "\<exists>r. construct c BaseGoatflowModel UserCreateRequest p = Inr r \<and>
           map_of r ''password'' = Some (PStr s) \<and> map fst r = map fname UserCreateRequest"
    by auto
qed

theorem user_create_request_password_witness:
  "(map_of [(''password'', PStr ''short'')] ''password'' = Some (PStr ''short'') \<and>
    length ''short'' < 8 \<and>
    (\<exists>es. construct no_coercion BaseGoatflowModel UserCreateRequest
             [(''password'', PStr ''short'')] = Inl (ValidationError es) \<and>
          ([''password''], StringTooShort) \<in> set es)) \<and>
   (map_of user_payload ''password'' = Some (PStr ''s3cretpw'') \<and> 8 \<le> length ''s3cretpw'' \<and>
    map_of user_payload ''email'' = Some (PStr ''ann@example.org'') \<and>
    map_of user_payload ''first_name'' = Some (PStr ''Ann'') \<and>
    map_of user_payload ''last_name'' = Some (PStr ''Lee'') \<and>
    map_of user_payload ''login'' = Some (PStr ''ann'') \<and>
    absent_or_str (map_of user_payload ''title'') \<and>
    absent_or_str (map_of user_payload ''role'') \<and>
    fst ` set user_payload \<subseteq> fname ` set UserCreateRequest \<and>
    (\<exists>r. construct no_coercion BaseGoatflowModel UserCreateRequest user_payload = Inr r \<and>
         map_of r ''password'' = Some (PStr ''s3cretpw'') \<and>
         map fst r = map fname UserCreateRequest))"
proof -
  have a: "map_of [(''password'', PStr ''short'')] ''password'' = Some (PStr ''short'') \<and>
    length ''short'' < 8" by simp
  have b: "map_of user_payload ''password'' = Some (PStr ''s3cretpw'') \<and>
    8 \<le> length ''s3cretpw'' \<and>
    map_of user_payload ''email'' = Some (PStr ''ann@example.org'') \<and>
    map_of user_payload ''first_name'' = Some (PStr ''Ann'') \<and>
    map_of user_payload ''last_name'' = Some (PStr ''Lee'') \<and>
    map_of user_payload ''login'' = Some (PStr ''ann'') \<and>
    absent_or_str (map_of user_payload ''title'') \<and>
    absent_or_str (map_of user_payload ''role'') \<and>
    fst ` set user_payload \<subseteq> fname ` set UserCreateRequest"
    by (simp add: user_payload_def UserCreateRequest_def required_def optional_def)
  note t = user_create_request_password
  from t[where p = "[(''password'', PStr ''short'')]" and s = "''short''"
           and c = no_coercion, THEN conjunct1, rule_format, OF a]
    t[where p = user_payload and s = "''s3cretpw''" and c = no_coercion,
      THEN conjunct2, rule_format, OF b] a b
  show ?thesis by blast
qed

text \<open>
  C10 as stated fails: with all five required fields present as strings and a password of
  8 characters, a payload that also holds an undeclared key is refused.
\<close>

theorem user_create_request_extra_field_counterexample:
  "map_of (user_payload @ [(''nickname'', PStr ''al'')]) ''password'' = Some (PStr ''s3cretpw'') \<and>
   8 \<le> length ''s3cretpw'' \<and>
   map_of (user_payload @ [(''nickname'', PStr ''al'')]) ''email''
     = Some (PStr ''ann@example.org'') \<and>
   map_of (user_payload @ [(''nickname'', PStr ''al'')]) ''first_name'' = Some (PStr ''Ann'') \<and>
   map_of (user_payload @ [(''nickname'', PStr ''al'')]) ''last_name'' = Some (PStr ''Lee'') \<and>
   map_of (user_payload @ [(''nickname'', PStr ''al'')]) ''login'' = Some (PStr ''ann'') \<and>
   construct no_coercion BaseGoatflowModel UserCreateRequest
     (user_payload @ [(''nickname'', PStr ''al'')])
     = Inl (ValidationError [([''nickname''], ExtraForbidden)])"
  by (simp add: eval_defs user_payload_def UserCreateRequest_def)

section \<open>Assignment to a constructed record\<close>

text \<open>
  C5, as amended. The record classes are not frozen. Assigning to a declared field a
  value that passes the field's validation succeeds: the field then holds the validated
  value and every other field is as before. Assigning a value that fails the field's
  validation raises a \<open>ValidationError\<close>.
\<close>

theorem setattr_validated_assignment:
  "(find (\<lambda>f. fname f = n) fs = Some f \<and> validate_field c BaseGoatflowModel f v = Inr w \<longrightarrow>
      setattr c BaseGoatflowModel fs r n v = Inr (AList.update n w r) \<and>
      map_of (AList.update n w r) = (map_of r)(n \<mapsto> w)) \<and>
   (find (\<lambda>f. fname f = n) fs = Some f \<and> validate_field c BaseGoatflowModel f v = Inl es \<longrightarrow>
      setattr c BaseGoatflowModel fs r n v = Inl (ValidationError (at_loc n es)))"
  by (simp add: setattr_def BaseGoatflowModel_def update_conv')

theorem setattr_validated_assignment_witness:
  "(find (\<lambda>f. fname f = ''name'') Queue = Some (required ''name'' TStr) \<and>
    validate_field no_coercion BaseGoatflowModel (required ''name'' TStr) (PStr ''billing'')
      = Inr (PStr ''billing'') \<and>
    setattr no_coercion BaseGoatflowModel Queue queue_payload ''name'' (PStr ''billing'')
      = Inr (AList.update ''name'' (PStr ''billing'') queue_payload) \<and>
    map_of (AList.update ''name'' (PStr ''billing'') queue_payload)
      = (map_of queue_payload)(''name'' \<mapsto> PStr ''billing'')) \<and>
   (find (\<lambda>f. fname f = ''name'') Queue = Some (required ''name'' TStr) \<and>
    validate_field no_coercion BaseGoatflowModel (required ''name'' TStr) (PInt 5)
      = Inl [([], StringType)] \<and>
    setattr no_coercion BaseGoatflowModel Queue queue_payload ''name'' (PInt 5)
      = Inl (ValidationError (at_loc ''name'' [([], StringType)])))"
proof -
  have f: "find (\<lambda>f. fname f = ''name'') Queue = Some (required ''name'' TStr)"
    by (simp add: Queue_def required_def)
  have a: "validate_field no_coercion BaseGoatflowModel (required ''name'' TStr) (PStr ''billing'')
      = Inr (PStr ''billing'')"
    by (simp add: required_def check_constraints_def)
  have b: "validate_field no_coercion BaseGoatflowModel (required ''name'' TStr) (PInt 5)
      = Inl [([], StringType)]"
    by (simp add: required_def no_coercion_def)
  note t = setattr_validated_assignment
  from t[where r = queue_payload, THEN conjunct1, rule_format, OF conjI[OF f a]]
    t[where r = queue_payload, THEN conjunct2, rule_format, OF conjI[OF f b]] f a b
  show ?thesis by blast
qed

text \<open>
  C5 as stated fails: on a constructed \<open>Queue\<close> record the assignment
  \<^verbatim>\<open>queue.name = "billing"\<close> succeeds and changes the field.
\<close>

theorem record_assignment_counterexample:
  "construct no_coercion BaseGoatflowModel Queue queue_payload = Inr queue_payload \<and>
   setattr no_coercion BaseGoatflowModel Queue queue_payload ''name'' (PStr ''billing'') =
     Inr [(''id'', PInt 7), (''name'', PStr ''billing''), (''description'', PStr ''first line''),
          (''is_active'', PBool True), (''created_at'', PDatetime 1700000000),
          (''updated_at'', PDatetime 1700000500)]"
  by (simp add: eval_defs setattr_def Queue_def queue_payload_def)

section \<open>Round trip of a created ticket\<close>

lemma validate_field_str_result:
  "validate_field c cfg (Field n TStr d None) v = Inr w \<Longrightarrow>
     \<exists>s. w = PStr s \<and> validate_field c cfg (Field n' TStr d' None) w = Inr w"
  by (auto simp: check_constraints_def split: pyval.splits option.splits sum.splits)

lemma map_of_filter_value:
  "map_of r k = Some v \<Longrightarrow> P v \<Longrightarrow> map_of (filter (\<lambda>(k, v). P v) r) k = Some v"
  by (induction r) (auto split: if_splits)

lemma model_dump_keeps:
  "map_of r k = Some v \<Longrightarrow> v \<noteq> PNone \<Longrightarrow> map_of (model_dump x r) k = Some v"
  using map_of_filter_value[of r k v "\<lambda>v. v \<noteq> PNone"] by (simp add: model_dump_def)

lemma construct_str_field:
  assumes c: "construct c BaseGoatflowModel fs p = Inr r"
    and d: "distinct (map fname fs)" and f: "Field n TStr None None \<in> set fs"
  shows "\<exists>v s. map_of p n = Some v \<and> map_of r n = Some (PStr s) \<and>
           validate_field c BaseGoatflowModel (Field n TStr None None) v = Inr (PStr s)"
proof -
  from c have ok: "fst (validate_fields c BaseGoatflowModel fs p) = []"
    by (simp add: construct_Inr_iff)
  from vf_ok_field[OF ok f] obtain v w where v: "map_of p n = Some v"
    and w: "validate_field c BaseGoatflowModel (Field n TStr None None) v = Inr w"
    by (auto split: option.splits)
  from validate_field_str_result[OF w] obtain s where s: "w = PStr s" by auto
  from construct_lookup[OF c d f] v w s have "map_of r n = Some (PStr s)" by simp
  with v w s show ?thesis by auto
qed

text \<open>
  C6. Let \<open>r\<close> be a constructed \<open>TicketCreateRequest\<close>, encoded to a request body (with
  or without its \<^verbatim>\<open>None\<close> fields), and let the server's response carry the \<open>title\<close> and
  \<open>description\<close> of that body. If the response decodes to a \<open>Ticket\<close> \<open>t\<close>, then
  \<open>t.title = r.title\<close> and \<open>t.description = r.description\<close>, and both are strings.
\<close>

theorem create_ticket_round_trip:
  assumes req: "construct c BaseGoatflowModel TicketCreateRequest p = Inr r"
    and echo_title: "map_of resp ''title'' = map_of (encode_request x r) ''title''"
    and echo_description:
      "map_of resp ''description'' = map_of (encode_request x r) ''description''"
    and dec: "decode_ticket c resp = Inr t"
  shows "map_of t ''title'' = map_of r ''title'' \<and>
         map_of t ''description'' = map_of r ''description'' \<and>
         (\<exists>a b. map_of r ''title'' = Some (PStr a) \<and> map_of r ''description'' = Some (PStr b))"
proof -
  have d1: "distinct (map fname TicketCreateRequest)"
    by (simp add: TicketCreateRequest_def required_def optional_def)
  have d2: "distinct (map fname Ticket)"
    by (simp add: Ticket_def required_def optional_def)
  from dec have dec': "construct c BaseGoatflowModel Ticket resp = Inr t"
    by (simp add: decode_ticket_def)
  have field_round: "\<exists>a. map_of r n = Some (PStr a) \<and> map_of t n = Some (PStr a)"
    if m1: "Field n TStr None None \<in> set TicketCreateRequest"
      and m2: "Field n TStr None None \<in> set Ticket"
      and e: "map_of resp n = map_of (encode_request x r) n" for n
  proof -
    from construct_str_field[OF req d1 m1] obtain a where a: "map_of r n = Some (PStr a)"
      by auto
    then have "map_of (encode_request x r) n = Some (PStr a)"
      by (simp add: encode_request_def model_dump_keeps)
    with e have "map_of resp n = Some (PStr a)" by simp
    with construct_lookup[OF dec' d2 m2] have "map_of t n = Some (PStr a)"
      by (simp add: check_constraints_def)
    with a show ?thesis by auto
  qed
  have "\<exists>a. map_of r ''title'' = Some (PStr a) \<and> map_of t ''title'' = Some (PStr a)"
    by (rule field_round) (simp_all add: TicketCreateRequest_def Ticket_def required_def echo_title)
  moreover
  have "\<exists>b. map_of r ''description'' = Some (PStr b) \<and> map_of t ''description'' = Some (PStr b)"
    by (rule field_round)
       (simp_all add: TicketCreateRequest_def Ticket_def required_def echo_description)
  ultimately show ?thesis by auto
qed

lemma config_extra: "extra BaseGoatflowModel = ExtraForbid"
  by (simp add: BaseGoatflowModel_def)

lemma tcr_ok: "construct no_coercion BaseGoatflowModel TicketCreateRequest ticket_request_payload
     = Inr ticket_request_record"
  by (simp add: eval_defs TicketCreateRequest_def ticket_request_payload_def
        ticket_request_record_def)

lemma ticket_ok: "construct no_coercion BaseGoatflowModel Ticket ticket_response = Inr ticket_record"
  by (simp add: eval_defs Ticket_def ticket_response_def ticket_record_def)

theorem create_ticket_round_trip_witness:
  "construct no_coercion BaseGoatflowModel TicketCreateRequest ticket_request_payload
     = Inr ticket_request_record \<and>
   map_of ticket_response ''title''
     = map_of (encode_request True ticket_request_record) ''title'' \<and>
   map_of ticket_response ''description''
     = map_of (encode_request True ticket_request_record) ''description'' \<and>
   decode_ticket no_coercion ticket_response = Inr ticket_record \<and>
   map_of ticket_record ''title'' = Some (PStr ''Printer jam'') \<and>
   map_of ticket_request_record ''title'' = Some (PStr ''Printer jam'') \<and>
   map_of ticket_record ''description'' = map_of ticket_request_record ''description''"
proof -
  have e: "map_of ticket_response ''title''
      = map_of (encode_request True ticket_request_record) ''title''"
    "map_of ticket_response ''description''
      = map_of (encode_request True ticket_request_record) ''description''"
    by (simp_all add: ticket_response_def ticket_request_record_def encode_request_def
          model_dump_def)
  have v: "map_of ticket_record ''title'' = Some (PStr ''Printer jam'')"
    by (simp add: ticket_record_def)
  have dt: "decode_ticket no_coercion ticket_response = Inr ticket_record"
    by (simp add: decode_ticket_def ticket_ok)
  from create_ticket_round_trip[OF tcr_ok e dt] tcr_ok dt e v
  show ?thesis by simp
qed

section \<open>Properties of the strategies and the pipeline\<close>

text \<open>
  C8. For the static-key strategy, \<open>apply_auth\<close> puts the same header, the configured
  name with the key, in front of the headers of every request; \<open>is_expired\<close> is false at
  every instant; and \<open>refresh\<close> succeeds whatever the endpoint does and returns the
  strategy with its credential unchanged.
\<close>

theorem static_key_strategy:
  "apply_auth (StaticKey h cr) req = req\<lparr>rheaders := (h, material cr) # rheaders req\<rparr> \<and>
   hd (rheaders (apply_auth (StaticKey h cr) req)) = (h, material cr) \<and>
   hd (rheaders (apply_auth (StaticKey h cr) req')) = (h, material cr) \<and>
   is_expired (StaticKey h cr) now = False \<and>
   refresh endpoint (StaticKey h cr) = Inr (StaticKey h cr)"
  by simp

lemma classify_unauthorized: "is_unauthorized x \<Longrightarrow> classify x = Inl UnauthorizedError"
  by (cases x) simp_all

text \<open>
  C3. For every call of \<open>execute\<close>, whatever the strategy, the refresh endpoint and the
  transport's answers are:
  \<^item> at most two dispatches are made, so there is never a third attempt;
  \<^item> two dispatches are made only when the first response was a 401 and the refresh forced
    by it succeeded;
  \<^item> when the first response is a 401 and the forced refresh succeeds with the strategy
    \<open>s2\<close>, the request is dispatched exactly once more, right after that refresh and with
    the credential of \<open>s2\<close>; the outcome is the classification of the second response and
    the call ends with \<open>s2\<close>;
  \<^item> when the first two responses are both 401, the outcome is \<open>UnauthorizedError\<close>;
  \<^item> when the first response is a 401 and the forced refresh is rejected, the outcome is
    \<open>UnauthorizedError\<close> after that one dispatch and one refresh, without a retry;
  \<^item> when the first response is not a 401, there is one dispatch, no forced refresh, and
    the outcome is the classification of that response;
  \<^item> when the refresh of an expired strategy before the call is rejected, the outcome is
    \<open>UnauthorizedError\<close> and nothing is dispatched.
\<close>

theorem execute_retries_once:
  "dispatches (snd (snd (execute endpoint server now s req))) \<le> 2 \<and>
   (dispatches (snd (snd (execute endpoint server now s req))) = 2 \<longrightarrow>
      is_unauthorized (server 0) \<and>
      (\<exists>t1 t2. ensure_fresh endpoint now s = Inr t1 \<and> refresh endpoint t1 = Inr t2)) \<and>
   (ensure_fresh endpoint now s = Inr s1 \<and> is_unauthorized (server 0) \<and>
    refresh endpoint s1 = Inr s2 \<longrightarrow>
      execute endpoint server now s req =
        (classify (server 1), s2,
         pre_refresh now s @
           [Dispatch (apply_auth s1 req), Refresh, Dispatch (apply_auth s2 req)]) \<and>
      dispatches (snd (snd (execute endpoint server now s req))) = 2) \<and>
   (is_unauthorized (server 0) \<and> is_unauthorized (server 1) \<longrightarrow>
      fst (execute endpoint server now s req) = Inl UnauthorizedError) \<and>
   (ensure_fresh endpoint now s = Inr s1 \<and> is_unauthorized (server 0) \<and>
    refresh endpoint s1 = Inl e \<longrightarrow>
      execute endpoint server now s req =
        (Inl UnauthorizedError, s1,
         pre_refresh now s @ [Dispatch (apply_auth s1 req), Refresh]) \<and>
      dispatches (snd (snd (execute endpoint server now s req))) = 1) \<and>
   (ensure_fresh endpoint now s = Inr s1 \<and> \<not> is_unauthorized (server 0) \<longrightarrow>
      execute endpoint server now s req =
        (classify (server 0), s1, pre_refresh now s @ [Dispatch (apply_auth s1 req)]) \<and>
      dispatches (snd (snd (execute endpoint server now s req))) = 1) \<and>
   (ensure_fresh endpoint now s = Inl e \<longrightarrow>
      execute endpoint server now s req = (Inl UnauthorizedError, s, pre_refresh now s) \<and>
      dispatches (snd (snd (execute endpoint server now s req))) = 0)"
proof -
  have pre: "filter is_dispatch (pre_refresh now s) = []"
    by (simp add: pre_refresh_def)
  show ?thesis
    by (cases "ensure_fresh endpoint now s"; cases "refresh endpoint s1";
        cases "is_unauthorized (server 0)")
       (auto simp: execute_def dispatches_def Let_def pre classify_unauthorized
             split: sum.splits)
qed

theorem execute_retries_once_witness:
  "(ensure_fresh sample_endpoint 0 sample_bearer = Inr sample_bearer \<and>
    is_unauthorized (unauthorized_once 0) \<and>
    refresh sample_endpoint sample_bearer = Inr refreshed_bearer \<and>
    execute sample_endpoint unauthorized_once 0 sample_bearer sample_request =
      (Inr (PDict [(''ok'', PBool True)]), refreshed_bearer,
       [Dispatch (sample_request\<lparr>rheaders := [(''Authorization'', ''Bearer old-token'')]\<rparr>),
        Refresh,
        Dispatch (sample_request\<lparr>rheaders := [(''Authorization'', ''Bearer new-token'')]\<rparr>)]) \<and>
    dispatches (snd (snd (execute sample_endpoint unauthorized_once 0 sample_bearer
      sample_request))) = 2) \<and>
   (is_unauthorized (always_unauthorized 0) \<and> is_unauthorized (always_unauthorized 1) \<and>
    fst (execute sample_endpoint always_unauthorized 0 sample_bearer sample_request)
      = Inl UnauthorizedError \<and>
    dispatches (snd (snd (execute sample_endpoint always_unauthorized 0 sample_bearer
      sample_request))) = 2) \<and>
   (refresh rejecting_endpoint sample_bearer = Inl UnauthorizedError \<and>
    execute rejecting_endpoint always_unauthorized 0 sample_bearer sample_request =
      (Inl UnauthorizedError, sample_bearer,
       [Dispatch (sample_request\<lparr>rheaders := [(''Authorization'', ''Bearer old-token'')]\<rparr>),
        Refresh])) \<and>
   (\<not> is_unauthorized (unauthorized_once 1) \<and>
    dispatches (snd (snd (execute sample_endpoint (\<lambda>n. unauthorized_once (Suc n)) 0
      sample_bearer sample_request))) = 1) \<and>
   (ensure_fresh rejecting_endpoint 2000 sample_bearer = Inl UnauthorizedError \<and>
    execute rejecting_endpoint unauthorized_once 2000 sample_bearer sample_request =
      (Inl UnauthorizedError, sample_bearer, [Refresh]))"
proof -
  note defs = ensure_fresh_def pre_refresh_def sample_bearer_def refreshed_bearer_def
    sample_endpoint_def rejecting_endpoint_def safety_margin_def
  have f: "ensure_fresh sample_endpoint 0 sample_bearer = Inr sample_bearer"
    "ensure_fresh rejecting_endpoint 0 sample_bearer = Inr sample_bearer"
    by (simp_all add: defs)
  have u: "is_unauthorized (unauthorized_once 0)" "\<not> is_unauthorized (unauthorized_once 1)"
    "is_unauthorized (always_unauthorized 0)" "is_unauthorized (always_unauthorized 1)"
    by (simp_all add: unauthorized_once_def always_unauthorized_def)
  have r: "refresh sample_endpoint sample_bearer = Inr refreshed_bearer"
    "refresh rejecting_endpoint sample_bearer = Inl UnauthorizedError"
    by (simp_all add: defs)
  have x: "ensure_fresh rejecting_endpoint 2000 sample_bearer = Inl UnauthorizedError"
    by (simp add: defs)
  have p: "pre_refresh 0 sample_bearer = []" "pre_refresh 2000 sample_bearer = [Refresh]"
    by (simp_all add: defs)
  have a1: "apply_auth sample_bearer sample_request =
      sample_request\<lparr>rheaders := [(''Authorization'', ''Bearer old-token'')]\<rparr>"
    "apply_auth refreshed_bearer sample_request =
      sample_request\<lparr>rheaders := [(''Authorization'', ''Bearer new-token'')]\<rparr>"
    by (simp_all add: sample_bearer_def refreshed_bearer_def sample_request_def)
  have c1: "classify (unauthorized_once 1) = Inr (PDict [(''ok'', PBool True)])"
    by (simp add: unauthorized_once_def)
  note t = execute_retries_once
  note w1 = t[where endpoint = sample_endpoint and server = unauthorized_once and now = 0
      and s = sample_bearer and req = sample_request and ?s1.0 = sample_bearer
      and ?s2.0 = refreshed_bearer,
      THEN conjunct2, THEN conjunct2, THEN conjunct1, rule_format,
      OF conjI[OF f(1) conjI[OF u(1) r(1)]]]
  note w2 = t[where endpoint = sample_endpoint and server = always_unauthorized and now = 0
      and s = sample_bearer and req = sample_request,
      THEN conjunct2, THEN conjunct2, THEN conjunct2, THEN conjunct1, rule_format,
      OF conjI[OF u(3) u(4)]]
  note w2' = t[where endpoint = sample_endpoint and server = always_unauthorized and now = 0
      and s = sample_bearer and req = sample_request and ?s1.0 = sample_bearer
      and ?s2.0 = refreshed_bearer,
      THEN conjunct2, THEN conjunct2, THEN conjunct1, rule_format,
      OF conjI[OF f(1) conjI[OF u(3) r(1)]]]
  note w3 = t[where endpoint = rejecting_endpoint and server = always_unauthorized and now = 0
      and s = sample_bearer and req = sample_request and ?s1.0 = sample_bearer
      and e = UnauthorizedError,
      THEN conjunct2, THEN conjunct2, THEN conjunct2, THEN conjunct2, THEN conjunct1,
      rule_format, OF conjI[OF f(2) conjI[OF u(3) r(2)]]]
  note w4 = t[where endpoint = sample_endpoint and server = "\<lambda>n. unauthorized_once (Suc n)"
      and now = 0 and s = sample_bearer and req = sample_request and ?s1.0 = sample_bearer,
      THEN conjunct2, THEN conjunct2, THEN conjunct2, THEN conjunct2, THEN conjunct2,
      THEN conjunct1, rule_format]
  note w5 = t[where endpoint = rejecting_endpoint and server = unauthorized_once and now = 2000
      and s = sample_bearer and req = sample_request and e = UnauthorizedError,
      THEN conjunct2, THEN conjunct2, THEN conjunct2, THEN conjunct2, THEN conjunct2,
      THEN conjunct2, rule_format, OF x]
  from w1 w2 w2' w3 w4 w5 f u r x p a1 c1 show ?thesis by (simp add: dispatches_def)
qed

section \<open>Properties of the listing\<close>

lemma total_pages_of_bounds:
  assumes "0 < p"
  shows "(total_pages_of c p - 1) * p < c \<and> c \<le> total_pages_of c p * p"
proof -
  let ?x = "rat_of_int c / rat_of_int p"
  have p: "0 < rat_of_int p" using assms by simp
  have "of_int \<lceil>?x\<rceil> - 1 < ?x" by linarith
  then have lo: "(of_int \<lceil>?x\<rceil> - 1) * rat_of_int p < rat_of_int c"
    using p by (simp add: pos_less_divide_eq)
  have hi: "rat_of_int c \<le> of_int \<lceil>?x\<rceil> * rat_of_int p"
    by (rule iffD1[OF pos_divide_le_eq[OF p]]) (rule le_of_int_ceiling)
  from lo have "rat_of_int ((\<lceil>?x\<rceil> - 1) * p) < rat_of_int c" by simp
  moreover from hi have "rat_of_int c \<le> rat_of_int (\<lceil>?x\<rceil> * p)" by simp
  ultimately have "(\<lceil>?x\<rceil> - 1) * p < c \<and> c \<le> \<lceil>?x\<rceil> * p"
    unfolding of_int_less_iff of_int_le_iff by simp
  then show ?thesis by (simp add: total_pages_of_def)
qed

text \<open>
  C4. For every \<open>page_size = p > 0\<close> and every total count \<open>c\<close> that the server reports,
  the envelope that \<open>list_tickets\<close> returns has \<open>total_pages\<close> equal to the ceiling of
  \<open>c / p\<close>, that is the least number of pages of \<open>p\<close> items that hold \<open>c\<close> items, and
  \<open>total_count = c\<close>; the value is computed from \<open>c\<close> and \<open>p\<close>, and the server's listing
  has no \<open>total_pages\<close> to take it from.
\<close>

theorem list_tickets_total_pages:
  assumes "0 < p" and "list_tickets c p srv = Inr env"
  shows "map_of env ''total_pages'' = Some (PInt \<lceil>rat_of_int (l_total_count srv) / rat_of_int p\<rceil>)
    \<and> map_of env ''total_pages'' = Some (PInt (total_pages_of (l_total_count srv) p))
    \<and> (total_pages_of (l_total_count srv) p - 1) * p < l_total_count srv
    \<and> l_total_count srv \<le> total_pages_of (l_total_count srv) p * p
    \<and> map_of env ''total_count'' = Some (PInt (l_total_count srv))"
proof -
  have d: "distinct (map fname TicketListResponse)"
    by (simp add: TicketListResponse_def required_def)
  have m: "Field ''total_pages'' TInt None None \<in> set TicketListResponse"
    "Field ''total_count'' TInt None None \<in> set TicketListResponse"
    by (simp_all add: TicketListResponse_def required_def)
  from assms(2) construct_lookup[OF _ d m(1)] construct_lookup[OF _ d m(2)]
  have "map_of env ''total_pages'' = Some (PInt (total_pages_of (l_total_count srv) p))"
    "map_of env ''total_count'' = Some (PInt (l_total_count srv))"
    by (simp_all add: list_tickets_def check_constraints_def)
  with total_pages_of_bounds[OF assms(1)] show ?thesis
    by (simp add: total_pages_of_def)
qed

theorem list_tickets_total_pages_witness:
  "(0::int) < 50 \<and>
   list_tickets no_coercion 50 sample_listing =
     Inr [(''tickets'', PList [PModel ''Ticket'' ticket_record]), (''total_count'', PInt 120),
          (''page'', PInt 1), (''page_size'', PInt 50), (''total_pages'', PInt 3)] \<and>
   \<lceil>rat_of_int (l_total_count sample_listing) / rat_of_int 50\<rceil> = 3"
proof -
  have "\<lceil>(120::rat) / 50\<rceil> = 3" by (rule ceiling_unique) simp_all
  then have tp: "total_pages_of 120 50 = 3" by (simp add: total_pages_of_def)
  have v: "validate_fields no_coercion BaseGoatflowModel Ticket ticket_response
      = ([], ticket_record)"
    using ticket_ok by (simp add: construct_Inr_iff prod_eq_iff)
  have x: "extra_fields Ticket ticket_response = []"
    using ticket_ok by (simp add: construct_Inr_iff)
  have t: "validate no_coercion BaseGoatflowModel (TModel ''Ticket'' Ticket)
      (PDict ticket_response) = Inr (PModel ''Ticket'' ticket_record)"
    by (simp add: v x finish_def config_extra)
  have ts: "validate_field no_coercion BaseGoatflowModel
      (Field ''tickets'' (TList (TModel ''Ticket'' Ticket)) None None)
      (PList [PDict ticket_response]) = Inr (PList [PModel ''Ticket'' ticket_record])"
    using t by (simp add: check_constraints_def del: validate.simps(9))
  have int_field: "validate_field no_coercion BaseGoatflowModel (Field n TInt None None) (PInt i)
      = Inr (PInt i)" for n i
    by (simp add: check_constraints_def)
  have l: "list_tickets no_coercion 50 sample_listing =
     Inr [(''tickets'', PList [PModel ''Ticket'' ticket_record]), (''total_count'', PInt 120),
          (''page'', PInt 1), (''page_size'', PInt 50), (''total_pages'', PInt 3)]"
    by (simp add: list_tickets_def sample_listing_def tp construct_def finish_def
          extra_fields_def config_extra required_def TicketListResponse_def ts int_field
          del: validate_field.simps)
  from list_tickets_total_pages[of 50 no_coercion sample_listing, OF _ l] l
  show ?thesis by (simp add: sample_listing_def)
qed

end
